theory Spec2Isabelle
  imports Complex_Main "HOL-Library.Sublist"
begin

section \<open>Python strings\<close>

text \<open>
  A Python \<open>str\<close> is a sequence of Unicode code points: \<open>len\<close> and slicing count
  code points, not bytes. A string is therefore modelled as the list of its code points.
  The literals of the source are written out as code point lists; the comment of each
  literal gives a transliteration or the ASCII text.
\<close>

type_synonym ustr = "nat list"

text \<open>\<open>str(n)\<close> for a non-negative integer: its decimal digits.\<close>

fun str_nat :: "nat \<Rightarrow> ustr" where
  "str_nat n = (if n < 10 then [48 + n] else str_nat (n div 10) @ [48 + n mod 10])"

declare str_nat.simps [simp del]

text \<open>Truthiness of an \<open>Optional[str]\<close>: \<open>None\<close> and the empty string are falsy.\<close>

fun truthy :: "ustr option \<Rightarrow> bool" where
  "truthy None = False"
| "truthy (Some s) = (s \<noteq> [])"

section \<open>Data model (models.py)\<close>

datatype writing_style = Teinei | Casual

datatype line_break_style = Readability | Short | Long

record LineContentRequest =
  company_name :: ustr
  company_url :: ustr
  blog_url :: ustr
  redirect_text :: ustr
  bracket_type :: ustr
  honorific :: ustr
  child_honorific :: ustr
  fixed_format :: "ustr option"
  add_emotional_intro :: bool
  writing_style :: writing_style
  line_break_style :: line_break_style
  content_length :: ustr
  date_format :: ustr
  bullet_point :: ustr
  emoji_types :: ustr
  emoji_count :: ustr
  greeting_text :: ustr
  reference_template :: "ustr option"

record ScrapedContent =
  title :: ustr
  content :: ustr
  images :: "ustr list"

record GeneratedContent =
  content :: ustr
  markdown :: ustr

section \<open>Errors\<close>

text \<open>
  Every exception of the source is a value. The first constructors are the exceptions
  raised by the client libraries and by the interpreter; \<open>ScrapeError\<close> and
  \<open>GenerationError\<close> are the two exceptions that the source raises itself, from a
  caught exception \<open>e\<close>. Their message is a fixed text followed by \<open>str(e)\<close>; the model
  keeps \<open>e\<close> in place of its rendering, and so does the \<open>"error"\<close> entry of the
  dictionary of a failed search.
\<close>

datatype error =
    ApiError ustr
  | RequestException ustr
  | AttributeError
  | TypeError
  | IndexError
  | ValidationError
  | ScrapeError error
  | GenerationError error

section \<open>Markdown formatting (content\_generator.py, \_format\_as\_markdown)\<close>

definition lit_image_open :: ustr where
  \<comment> \<open>newline newline ![kiji gazou (article image) followed by a space\<close>
  "lit_image_open =
    [10, 10, 33, 91, 35352, 20107, 30011, 20687, 32]"

definition lit_image_mid :: ustr where
  \<comment> \<open>ASCII ](\<close>
  "lit_image_mid =
    [93, 40]"

definition lit_paren_close :: ustr where
  \<comment> \<open>ASCII )\<close>
  "lit_paren_close =
    [41]"

definition lit_link_open :: ustr where
  \<comment> \<open>newline newline [shousai wo miru (see details)](\<close>
  "lit_link_open =
    [10, 10, 91, 35443, 32048, 12434, 35211, 12427, 93, 40]"

text \<open>
  The text appended for the image at position \<open>i\<close> of \<open>enumerate(selected_images)\<close>:
  the f-string \<open>"\n\n![... {i+1}]({image_url})"\<close>.
\<close>

definition image_reference :: "nat \<Rightarrow> ustr \<Rightarrow> ustr" where
  "image_reference i image_url =
     lit_image_open @ str_nat (i + 1) @ lit_image_mid @ image_url @ lit_paren_close"

definition source_link :: "ustr \<Rightarrow> ustr" where
  "source_link url = lit_link_open @ url @ lit_paren_close"

text \<open>
  The loop \<open>for i, image_url in enumerate(selected_images): markdown += ...\<close>, with the
  string built so far and the running index as its state.
\<close>

fun append_images :: "ustr \<Rightarrow> nat \<Rightarrow> ustr list \<Rightarrow> ustr" where
  "append_images md i [] = md"
| "append_images md i (image_url # rest) =
     append_images (md @ image_reference i image_url) (Suc i) rest"

definition format_as_markdown :: "ustr \<Rightarrow> ustr list \<Rightarrow> ustr option \<Rightarrow> ustr" where
  "format_as_markdown txt selected_images source_url =
     (let md = txt;
          md = append_images md 0 selected_images;
          md = (case source_url of
                  None \<Rightarrow> md
                | Some url \<Rightarrow> if url \<noteq> [] then md @ source_link url else md)
      in md)"

section \<open>Prompt construction (content\_generator.py, \_build\_prompt)\<close>

subsection \<open>The literal text of the f-strings\<close>

definition prompt_intro :: ustr where
  \<comment> \<open>newline, 8 spaces, the opening sentence (you are a professional writer of corporate LINE articles ...), blank line, heading # kigyou jouhou (company information), - kigyou-mei (company name):\<close>
  "prompt_intro =
    [10, 32, 32, 32, 32, 32, 32, 32, 32, 12354, 12394, 12383, 12399, 20225, 26989, 12398,
     76, 73, 78, 69, 37197, 20449, 35352, 20107, 12398, 12503, 12525, 12398, 20316, 25104,
     32773, 12391, 12377, 12290, 20803, 12398, 12502, 12525, 12464, 35352, 20107, 12434, 76,
     73, 78, 69, 37197, 20449, 21521, 12369, 12395, 26368, 36969, 21270, 12373, 12428,
     12383, 35352, 20107, 12395, 26360, 12365, 25563, 12360, 12427, 24517, 35201, 12364,
     12354, 12426, 12414, 12377, 12290, 10, 32, 32, 32, 32, 32, 32, 32, 32, 10, 32, 32, 32,
     32, 32, 32, 32, 32, 35, 32, 20225, 26989, 24773, 22577, 10, 32, 32, 32, 32, 32, 32, 32,
     32, 45, 32, 20225, 26989, 21517, 58, 32]"

definition prompt_company_url :: ustr where
  \<comment> \<open>- kigyou URL:\<close>
  "prompt_company_url =
    [10, 32, 32, 32, 32, 32, 32, 32, 32, 45, 32, 20225, 26989, 85, 82, 76, 58, 32]"

definition prompt_article_title :: ustr where
  \<comment> \<open>blank line, heading # moto no burogu kiji (original blog article), taitoru (title):\<close>
  "prompt_article_title =
    [10, 32, 32, 32, 32, 32, 32, 32, 32, 10, 32, 32, 32, 32, 32, 32, 32, 32, 35, 32, 20803,
     12398, 12502, 12525, 12464, 35352, 20107, 10, 32, 32, 32, 32, 32, 32, 32, 32, 12479,
     12452, 12488, 12523, 58, 32]"

definition prompt_article_body :: ustr where
  \<comment> \<open>blank line, kontentsu (content): and the indentation of the body line\<close>
  "prompt_article_body =
    [10, 32, 32, 32, 32, 32, 32, 32, 32, 10, 32, 32, 32, 32, 32, 32, 32, 32, 12467, 12531,
     12486, 12531, 12484, 58, 10, 32, 32, 32, 32, 32, 32, 32, 32]"

definition prompt_after_body :: ustr where
  \<comment> \<open>two spaces, the text # nagasugiru baai wa seigen (limit when too long), which is part of the f-string, and a blank line\<close>
  "prompt_after_body =
    [32, 32, 35, 32, 38263, 12377, 12366, 12427, 22580, 21512, 12399, 21046, 38480, 10, 32,
     32, 32, 32, 32, 32, 32, 32, 10, 32, 32, 32, 32, 32, 32, 32, 32]"

definition prompt_requirements :: ustr where
  \<comment> \<open>blank line, heading # LINE haishin kiji no youken (requirements), - kiji no nagasa (length):\<close>
  "prompt_requirements =
    [10, 32, 32, 32, 32, 32, 32, 32, 32, 10, 32, 32, 32, 32, 32, 32, 32, 32, 35, 32, 76, 73,
     78, 69, 37197, 20449, 35352, 20107, 12398, 35201, 20214, 10, 32, 32, 32, 32, 32, 32,
     32, 32, 45, 32, 35352, 20107, 12398, 38263, 12373, 58, 32]"

definition prompt_writing_style :: ustr where
  \<comment> \<open>- buntai (writing style):\<close>
  "prompt_writing_style =
    [10, 32, 32, 32, 32, 32, 32, 32, 32, 45, 32, 25991, 20307, 58, 32]"

definition prompt_line_break :: ustr where
  \<comment> \<open>the bracketed note (teinei/kajuaru) and - kaigyou ichi (line break position):\<close>
  "prompt_line_break =
    [65288, 19969, 23527, 47, 12459, 12472, 12517, 12450, 12523, 65289, 10, 32, 32, 32, 32,
     32, 32, 32, 32, 45, 32, 25913, 34892, 20301, 32622, 58, 32]"

definition prompt_bracket :: ustr where
  \<comment> \<open>- kakko no shurui (bracket type):\<close>
  "prompt_bracket =
    [10, 32, 32, 32, 32, 32, 32, 32, 32, 45, 32, 12363, 12387, 12371, 12398, 31278, 39006,
     58, 32]"

definition prompt_honorific :: ustr where
  \<comment> \<open>- keishou (honorific):\<close>
  "prompt_honorific =
    [10, 32, 32, 32, 32, 32, 32, 32, 32, 45, 32, 25964, 31216, 58, 32]"

definition prompt_child_honorific :: ustr where
  \<comment> \<open>- kodomo no keishou (honorific for children):\<close>
  "prompt_child_honorific =
    [10, 32, 32, 32, 32, 32, 32, 32, 32, 45, 32, 23376, 12393, 12418, 12398, 25964, 31216,
     58, 32]"

definition prompt_emotional_intro :: ustr where
  \<comment> \<open>- kanjou wo yuuhatsu saseru buntou (emotional opener):\<close>
  "prompt_emotional_intro =
    [10, 32, 32, 32, 32, 32, 32, 32, 32, 45, 32, 24863, 24773, 12434, 35480, 30330, 12373,
     12379, 12427, 25991, 38957, 58, 32]"

definition prompt_emoji_types :: ustr where
  \<comment> \<open>- emoji no shurui (emoji types):\<close>
  "prompt_emoji_types =
    [10, 32, 32, 32, 32, 32, 32, 32, 32, 45, 32, 32117, 25991, 23383, 12398, 31278, 39006,
     58, 32]"

definition prompt_emoji_count :: ustr where
  \<comment> \<open>- emoji no ryou (emoji amount):\<close>
  "prompt_emoji_count =
    [10, 32, 32, 32, 32, 32, 32, 32, 32, 45, 32, 32117, 25991, 23383, 12398, 37327, 58, 32]"

definition prompt_bullet_point :: ustr where
  \<comment> \<open>the unit ko teido / haishin (about ... per message) and - kajougaki kigou (bullet glyph):\<close>
  "prompt_bullet_point =
    [20491, 31243, 24230, 47, 37197, 20449, 10, 32, 32, 32, 32, 32, 32, 32, 32, 45, 32,
     31623, 26465, 26360, 12365, 35352, 21495, 58, 32]"

definition prompt_date_format :: ustr where
  \<comment> \<open>- nichiji foomatto (date format):\<close>
  "prompt_date_format =
    [10, 32, 32, 32, 32, 32, 32, 32, 32, 45, 32, 26085, 26178, 12501, 12457, 12540, 12510,
     12483, 12488, 58, 32]"

definition prompt_greeting :: ustr where
  \<comment> \<open>- aisatsu-bun (greeting):\<close>
  "prompt_greeting =
    [10, 32, 32, 32, 32, 32, 32, 32, 32, 45, 32, 25384, 25334, 25991, 58, 32]"

definition prompt_redirect :: ustr where
  \<comment> \<open>- moto kiji e no yuudou (redirect to the source article):\<close>
  "prompt_redirect =
    [10, 32, 32, 32, 32, 32, 32, 32, 32, 45, 32, 20803, 35352, 20107, 12408, 12398, 35480,
     23566, 58, 32]"

definition prompt_image :: ustr where
  \<comment> \<open>- gazou (images):\<close>
  "prompt_image =
    [10, 32, 32, 32, 32, 32, 32, 32, 32, 45, 32, 30011, 20687, 58, 32]"

definition prompt_gap :: ustr where
  \<comment> \<open>a blank line: newline, 8 spaces, newline, 8 spaces\<close>
  "prompt_gap =
    [10, 32, 32, 32, 32, 32, 32, 32, 32, 10, 32, 32, 32, 32, 32, 32, 32, 32]"

definition prompt_instructions :: ustr where
  \<comment> \<open>blank line, heading # shiji (instructions), the seven numbered instructions, and the closing sentence asking for plain text only\<close>
  "prompt_instructions =
    [10, 32, 32, 32, 32, 32, 32, 32, 32, 10, 32, 32, 32, 32, 32, 32, 32, 32, 35, 32, 25351,
     31034, 10, 32, 32, 32, 32, 32, 32, 32, 32, 49, 46, 32, 12458, 12522, 12472, 12490,
     12523, 12398, 12502, 12525, 12464, 12467, 12531, 12486, 12531, 12484, 12398, 20027,
     35201, 12394, 12513, 12483, 12475, 12540, 12472, 12434, 20445, 25345, 12375, 12394,
     12364, 12425, 12289, 76, 73, 78, 69, 12398, 12459, 12472, 12517, 12450, 12523, 12394,
     37197, 20449, 21521, 12369, 12395, 26368, 36969, 21270, 12375, 12390, 12367, 12384,
     12373, 12356, 12290, 10, 32, 32, 32, 32, 32, 32, 32, 32, 50, 46, 32, 25351, 23450,
     12373, 12428, 12383, 32117, 25991, 23383, 12434, 36969, 20999, 12394, 22580, 25152,
     12395, 20351, 12356, 12289, 35242, 12375, 12415, 12420, 12377, 12373, 12434, 28436,
     20986, 12375, 12390, 12367, 12384, 12373, 12356, 12290, 10, 32, 32, 32, 32, 32, 32, 32,
     32, 51, 46, 32, 35352, 20107, 12398, 26368, 24460, 12395, 12399, 24517, 12378, 20803,
     12398, 35352, 20107, 12408, 12398, 12522, 12531, 12463, 35480, 23566, 25991, 12434,
     20837, 12428, 12390, 12367, 12384, 12373, 12356, 12290, 10, 32, 32, 32, 32, 32, 32, 32,
     32, 52, 46, 32, 39015, 23458, 30446, 32218, 12391, 12289, 35501, 32773, 12398, 33288,
     21619, 12434, 24341, 12367, 20869, 23481, 12395, 20181, 19978, 12370, 12390, 12367,
     12384, 12373, 12356, 12290, 10, 32, 32, 32, 32, 32, 32, 32, 32, 53, 46, 32, 25991,
     23383, 25968, 12399, 25351, 23450, 12373, 12428, 12383, 38263, 12373, 12395, 12375,
     12390, 12367, 12384, 12373, 12356, 12290, 10, 32, 32, 32, 32, 32, 32, 32, 32, 54, 46,
     32, 24517, 35201, 12395, 24540, 12376, 12390, 31623, 26465, 26360, 12365, 12434, 20351,
     12387, 12390, 35211, 12420, 12377, 12367, 12375, 12390, 12367, 12384, 12373, 12356,
     12290, 10, 32, 32, 32, 32, 32, 32, 32, 32, 55, 46, 32, 87, 101, 98, 26908, 32034,
     12363, 12425, 24471, 12383, 36861, 21152, 24773, 22577, 12364, 12354, 12427, 22580,
     21512, 12399, 12289, 12381, 12428, 12418, 27963, 29992, 12375, 12390, 35352, 20107,
     12398, 20385, 20516, 12434, 39640, 12417, 12390, 12367, 12384, 12373, 12356, 12290,
     12383, 12384, 12375, 12289, 24773, 22577, 28304, 12398, 35443, 32048, 12394, 85, 82,
     76, 12394, 12393, 12399, 21547, 12417, 12394, 12356, 12391, 12367, 12384, 12373, 12356,
     12290, 10, 32, 32, 32, 32, 32, 32, 32, 32, 10, 32, 32, 32, 32, 32, 32, 32, 32, 26368,
     32066, 30340, 12394, 20986, 21147, 12399, 12289, 76, 73, 78, 69, 12391, 37197, 20449,
     12377, 12427, 12486, 12461, 12473, 12488, 12398, 12415, 12434, 21547, 12417, 12390,
     12367, 12384, 12373, 12356, 12290, 12510, 12540, 12463, 12480, 12454, 12531, 24418,
     24335, 12399, 24517, 35201, 12354, 12426, 12414, 12379, 12435, 12290, 10, 32, 32, 32,
     32, 32, 32, 32, 32]"

definition lit_one_image :: ustr where
  \<comment> \<open>there is 1 attached image; do not mention the images, generate text only\<close>
  "lit_one_image =
    [35352, 20107, 12395, 12399, 49, 26522, 12398, 28155, 20184, 30011, 20687, 12364, 12354,
     12426, 12414, 12377, 12290, 30011, 20687, 12395, 12388, 12356, 12390, 35328, 21450,
     12379, 12378, 12289, 12486, 12461, 12473, 12488, 12398, 12415, 12434, 29983, 25104,
     12375, 12390, 12367, 12384, 12373, 12356, 12290]"

definition lit_images_pre :: ustr where
  \<comment> \<open>kiji ni wa (the article has)\<close>
  "lit_images_pre =
    [35352, 20107, 12395, 12399]"

definition lit_images_post :: ustr where
  \<comment> \<open>... attached images; do not mention the images, generate text only\<close>
  "lit_images_post =
    [26522, 12398, 28155, 20184, 30011, 20687, 12364, 12354, 12426, 12414, 12377, 12290,
     30011, 20687, 12395, 12388, 12356, 12390, 35328, 21450, 12379, 12378, 12289, 12486,
     12461, 12473, 12488, 12398, 12415, 12434, 29983, 25104, 12375, 12390, 12367, 12384,
     12373, 12356, 12290]"

definition lit_hitsuyou :: ustr where
  \<comment> \<open>hitsuyou (needed)\<close>
  "lit_hitsuyou =
    [24517, 35201]"

definition lit_fuyou :: ustr where
  \<comment> \<open>fuyou (not needed)\<close>
  "lit_fuyou =
    [19981, 35201]"

definition lit_ari_open :: ustr where
  \<comment> \<open>ari (present), space, opening parenthesis\<close>
  "lit_ari_open =
    [12354, 12426, 32, 40]"

definition lit_mai_close :: ustr where
  \<comment> \<open>mai (counter for sheets), closing parenthesis\<close>
  "lit_mai_close =
    [26522, 41]"

definition lit_nashi :: ustr where
  \<comment> \<open>nashi (none)\<close>
  "lit_nashi =
    [12394, 12375]"

definition lit_teinei :: ustr where
  \<comment> \<open>teinei (polite)\<close>
  "lit_teinei =
    [19969, 23527]"

definition lit_casual :: ustr where
  \<comment> \<open>kajuaru (casual)\<close>
  "lit_casual =
    [12459, 12472, 12517, 12450, 12523]"

definition lit_readability :: ustr where
  \<comment> \<open>yomiyasusa juushi (readability first)\<close>
  "lit_readability =
    [35501, 12415, 12420, 12377, 12373, 37325, 35222]"

definition lit_short :: ustr where
  \<comment> \<open>mijikame (rather short)\<close>
  "lit_short =
    [30701, 12417]"

definition lit_long :: ustr where
  \<comment> \<open>nagame (rather long)\<close>
  "lit_long =
    [38263, 12417]"

definition template_open :: ustr where
  \<comment> \<open>newline, 12 spaces, the sentence asking to imitate the tone and format of the template below, blank line\<close>
  "template_open =
    [10, 32, 32, 32, 32, 32, 32, 32, 32, 32, 32, 32, 32, 20197, 19979, 12398, 12486, 12531,
     12503, 12524, 12540, 12488, 12434, 21442, 32771, 12395, 12375, 12390, 12289, 20840,
     20307, 30340, 12394, 25991, 35519, 12392, 12501, 12457, 12540, 12510, 12483, 12488,
     12434, 27169, 20515, 12375, 12390, 12367, 12384, 12373, 12356, 65306, 10, 32, 32, 32,
     32, 32, 32, 32, 32, 32, 32, 32, 32, 10, 32, 32, 32, 32, 32, 32, 32, 32, 32, 32, 32, 32]"

definition template_close :: ustr where
  \<comment> \<open>newline and 12 spaces\<close>
  "template_close =
    [10, 32, 32, 32, 32, 32, 32, 32, 32, 32, 32, 32, 32]"

definition section_indent :: ustr where
  \<comment> \<open>newline and 12 spaces\<close>
  "section_indent =
    [10, 32, 32, 32, 32, 32, 32, 32, 32, 32, 32, 32, 32]"

definition enrichment_header :: ustr where
  \<comment> \<open># Web kensaku de shuushuu shita tsuika jouhou (additional information collected by web search)\<close>
  "enrichment_header =
    [35, 32, 87, 101, 98, 26908, 32034, 12391, 21454, 38598, 12375, 12383, 36861, 21152,
     24773, 22577]"

definition enrichment_after_header :: ustr where
  \<comment> \<open>blank line\<close>
  "enrichment_after_header =
    [10, 32, 32, 32, 32, 32, 32, 32, 32, 32, 32, 32, 32, 10, 32, 32, 32, 32, 32, 32, 32, 32,
     32, 32, 32, 32]"

definition enrichment_close :: ustr where
  \<comment> \<open>blank line, the sentence asking to use this information while keeping the article readable\<close>
  "enrichment_close =
    [10, 32, 32, 32, 32, 32, 32, 32, 32, 32, 32, 32, 32, 10, 32, 32, 32, 32, 32, 32, 32, 32,
     32, 32, 32, 32, 12371, 12398, 24773, 22577, 12434, 36969, 20999, 12395, 21033, 29992,
     12375, 12390, 12289, 35352, 20107, 12398, 20869, 23481, 12434, 20805, 23455, 12373,
     12379, 12390, 12367, 12384, 12373, 12356, 12290, 12383, 12384, 12375, 12289, 36942,
     24230, 12395, 23554, 38272, 30340, 12395, 12394, 12426, 12377, 12366, 12378, 12289, 76,
     73, 78, 69, 37197, 20449, 12398, 35501, 12415, 12420, 12377, 12373, 12434, 20445,
     12387, 12390, 12367, 12384, 12373, 12356, 12290, 10, 32, 32, 32, 32, 32, 32, 32, 32,
     32, 32, 32, 32]"

subsection \<open>The dictionary handed over by the web search\<close>

datatype citation = Citation (cite_url: ustr) (cite_title: ustr)

text \<open>
  The dictionary returned by \<open>search_related_info\<close>. Each key is an optional field:
  \<open>None\<close> means that the key is not in the dictionary. The key \<open>"search_results"\<close>
  of this inner dictionary only ever holds the empty list.
\<close>

record SearchResult =
  result_list :: "unit list option"
  summary :: "ustr option"
  citations :: "citation list option"
  error :: "error option"

text \<open>
  The dictionary returned by \<open>enhance_content_with_web_search\<close>, with its two keys.
  The argument \<open>web_search_info\<close> of the prompt builder is an option of it, where
  \<open>None\<close> stands for the falsy values \<open>None\<close> and \<open>{}\<close>.
\<close>

record WebSearchInfo =
  topic :: ustr
  search_results :: SearchResult

subsection \<open>The sections that may be empty\<close>

definition image_instruction :: "ustr list \<Rightarrow> ustr" where
  "image_instruction selected_images =
     (if selected_images \<noteq> [] then
        (if length selected_images = 1 then lit_one_image
         else lit_images_pre @ str_nat (length selected_images) @ lit_images_post)
      else [])"

definition template_instruction :: "'a LineContentRequest_scheme \<Rightarrow> ustr" where
  "template_instruction request =
     (case reference_template request of
        None \<Rightarrow> []
      | Some t \<Rightarrow> if t \<noteq> [] then template_open @ t @ template_close else [])"

text \<open>
  The test of the source is on the presence of the keys, not on the value:
  \<open>web_search_info and 'search_results' in web_search_info and
  'summary' in web_search_info['search_results']\<close>.
\<close>

definition web_search_section :: "WebSearchInfo option \<Rightarrow> ustr" where
  "web_search_section web_search_info =
     (case web_search_info of
        None \<Rightarrow> []
      | Some info \<Rightarrow>
          (case summary (search_results info) of
             None \<Rightarrow> []
           | Some s \<Rightarrow>
               section_indent @ enrichment_header @ enrichment_after_header @ s
                 @ enrichment_close))"

subsection \<open>The interpolated expressions\<close>

fun str_writing_style :: "writing_style \<Rightarrow> ustr" where
  "str_writing_style Teinei = lit_teinei"
| "str_writing_style Casual = lit_casual"

fun str_line_break_style :: "line_break_style \<Rightarrow> ustr" where
  "str_line_break_style Readability = lit_readability"
| "str_line_break_style Short = lit_short"
| "str_line_break_style Long = lit_long"

definition emotional_intro_field :: "bool \<Rightarrow> ustr" where
  "emotional_intro_field b = (if b then lit_hitsuyou else lit_fuyou)"

definition image_field :: "ustr list \<Rightarrow> ustr" where
  "image_field selected_images =
     (if selected_images \<noteq> [] then
        lit_ari_open @ str_nat (length selected_images) @ lit_mai_close
      else lit_nashi)"

subsection \<open>The prompt\<close>

definition build_prompt ::
  "'a LineContentRequest_scheme \<Rightarrow> 'b ScrapedContent_scheme \<Rightarrow> ustr list
     \<Rightarrow> WebSearchInfo option \<Rightarrow> ustr" where
  "build_prompt request scraped_content selected_images web_search_info =
     prompt_intro @ company_name request
     @ prompt_company_url @ company_url request
     @ prompt_article_title @ title scraped_content
     @ prompt_article_body @ take 1500 (ScrapedContent.content scraped_content)
     @ prompt_after_body @ web_search_section web_search_info
     @ prompt_requirements @ content_length request
     @ prompt_writing_style @ str_writing_style (writing_style request)
     @ prompt_line_break @ str_line_break_style (line_break_style request)
     @ prompt_bracket @ bracket_type request
     @ prompt_honorific @ honorific request
     @ prompt_child_honorific @ child_honorific request
     @ prompt_emotional_intro @ emotional_intro_field (add_emotional_intro request)
     @ prompt_emoji_types @ emoji_types request
     @ prompt_emoji_count @ emoji_count request
     @ prompt_bullet_point @ bullet_point request
     @ prompt_date_format @ date_format request
     @ prompt_greeting @ greeting_text request
     @ prompt_redirect @ redirect_text request
     @ prompt_image @ image_field selected_images
     @ prompt_gap @ image_instruction selected_images
     @ prompt_gap @ template_instruction request
     @ prompt_instructions"

section \<open>Web search (web\_search.py)\<close>

text \<open>
  The objects of a search response are read by attribute. An attribute is an option:
  reading an absent one raises \<open>AttributeError\<close>, except where the source guards the
  access with \<open>hasattr\<close>.
\<close>

datatype annotation =
  Annotation (ann_type: "ustr option") (ann_url: "ustr option") (ann_title: "ustr option")

datatype content_part =
  ContentPart (part_type: "ustr option") (part_text: "ustr option")
    (part_annotations: "annotation list option")

datatype output_item =
  OutputItem (item_type: "ustr option") (item_content: "content_part list option")

datatype search_response = SearchResponse (response_output: "output_item list option")

record SearchRequest =
  search_model :: ustr
  search_input :: ustr
  search_country :: ustr

type_synonym search_backend = "SearchRequest \<Rightarrow> error + search_response"

definition lit_gpt_4o :: ustr where
  \<comment> \<open>ASCII gpt-4o\<close>
  "lit_gpt_4o =
    [103, 112, 116, 45, 52, 111]"

definition lit_JP :: ustr where
  \<comment> \<open>ASCII JP\<close>
  "lit_JP =
    [74, 80]"

definition lit_message :: ustr where
  \<comment> \<open>ASCII message\<close>
  "lit_message =
    [109, 101, 115, 115, 97, 103, 101]"

definition lit_output_text :: ustr where
  \<comment> \<open>ASCII output_text\<close>
  "lit_output_text =
    [111, 117, 116, 112, 117, 116, 95, 116, 101, 120, 116]"

definition lit_url_citation :: ustr where
  \<comment> \<open>ASCII url_citation\<close>
  "lit_url_citation =
    [117, 114, 108, 95, 99, 105, 116, 97, 116, 105, 111, 110]"

definition lit_search_instruction :: ustr where
  \<comment> \<open>the instruction to investigate the topic, summarise in Japanese and include the sources, ending in kensaku taishou (search target):\<close>
  "lit_search_instruction =
    [20197, 19979, 12398, 12488, 12500, 12483, 12463, 12395, 38306, 12377, 12427, 26368,
     26032, 24773, 22577, 12434, 35443, 12375, 12367, 35519, 26619, 12375, 12390, 12367,
     12384, 12373, 12356, 12290, 24773, 22577, 12399, 26085, 26412, 35486, 12391, 35201,
     32004, 12375, 12289, 24773, 22577, 28304, 12418, 21547, 12417, 12390, 12367, 12384,
     12373, 12356, 12290, 26908, 32034, 23550, 35937, 58, 32]"


definition attr :: "'a option \<Rightarrow> error + 'a" where
  "attr a = (case a of None \<Rightarrow> Inl AttributeError | Some v \<Rightarrow> Inr v)"

text \<open>The inner loop over \<open>content.annotations\<close>, appending to \<open>citations\<close>.\<close>

fun collect_citations :: "citation list \<Rightarrow> annotation list \<Rightarrow> error + citation list" where
  "collect_citations cs [] = Inr cs"
| "collect_citations cs (a # rest) =
     (case attr (ann_type a) of
        Inl e \<Rightarrow> Inl e
      | Inr ty \<Rightarrow>
          if ty = lit_url_citation then
            (case attr (ann_url a) of
               Inl e \<Rightarrow> Inl e
             | Inr u \<Rightarrow>
                 collect_citations
                   (cs @ [Citation u (case ann_title a of None \<Rightarrow> [] | Some t \<Rightarrow> t)]) rest)
          else collect_citations cs rest)"

text \<open>The loop over \<open>item.content\<close>, updating the dictionary \<open>result\<close>.\<close>

fun scan_content :: "SearchResult \<Rightarrow> content_part list \<Rightarrow> error + SearchResult" where
  "scan_content result [] = Inr result"
| "scan_content result (c # rest) =
     (case attr (part_type c) of
        Inl e \<Rightarrow> Inl e
      | Inr ty \<Rightarrow>
          if ty = lit_output_text then
            (case attr (part_text c) of
               Inl e \<Rightarrow> Inl e
             | Inr t \<Rightarrow>
                 (let result = result\<lparr>summary := Some t\<rparr> in
                  case part_annotations c of
                    None \<Rightarrow> scan_content result rest
                  | Some anns \<Rightarrow>
                      (case collect_citations [] anns of
                         Inl e \<Rightarrow> Inl e
                       | Inr cs \<Rightarrow> scan_content (result\<lparr>citations := Some cs\<rparr>) rest)))
          else scan_content result rest)"

text \<open>The loop over \<open>response.output\<close>.\<close>

fun scan_output :: "SearchResult \<Rightarrow> output_item list \<Rightarrow> error + SearchResult" where
  "scan_output result [] = Inr result"
| "scan_output result (item # rest) =
     (case attr (item_type item) of
        Inl e \<Rightarrow> Inl e
      | Inr ty \<Rightarrow>
          if ty = lit_message then
            (case attr (item_content item) of
               Inl e \<Rightarrow> Inl e
             | Inr parts \<Rightarrow>
                 (case scan_content result parts of
                    Inl e \<Rightarrow> Inl e
                  | Inr result \<Rightarrow> scan_output result rest))
          else scan_output result rest)"

definition search_request :: "ustr \<Rightarrow> ustr \<Rightarrow> SearchRequest" where
  "search_request query country =
     \<lparr>search_model = lit_gpt_4o,
      search_input = lit_search_instruction @ query,
      search_country = country\<rparr>"

text \<open>The body of the \<open>try\<close> block of \<open>search_related_info\<close>.\<close>

definition search_related_info_try :: "search_backend \<Rightarrow> ustr \<Rightarrow> ustr \<Rightarrow> error + SearchResult" where
  "search_related_info_try backend query country =
     (case backend (search_request query country) of
        Inl e \<Rightarrow> Inl e
      | Inr response \<Rightarrow>
          (let result = \<lparr>result_list = Some [], summary = None, citations = None,
                          error = None\<rparr> in
           case attr (response_output response) of
             Inl e \<Rightarrow> Inl e
           | Inr items \<Rightarrow> scan_output result items))"

text \<open>The dictionary of the \<open>except\<close> branch.\<close>

definition failed_search :: "error \<Rightarrow> SearchResult" where
  "failed_search e =
     \<lparr>result_list = None, summary = Some [], citations = Some [], error = Some e\<rparr>"

definition search_related_info :: "search_backend \<Rightarrow> ustr \<Rightarrow> ustr \<Rightarrow> SearchResult" where
  "search_related_info backend query country =
     (case search_related_info_try backend query country of
        Inl e \<Rightarrow> failed_search e
      | Inr result \<Rightarrow> result)"

definition enhance_content_with_web_search ::
  "search_backend \<Rightarrow> 'a LineContentRequest_scheme \<Rightarrow> ustr \<Rightarrow> WebSearchInfo" where
  "enhance_content_with_web_search backend request tp =
     (let search_query = company_name request @ [32] @ tp;
          results = search_related_info backend search_query lit_JP
      in \<lparr>topic = tp, search_results = results\<rparr>)"

section \<open>Floating point\<close>

text \<open>
  A Python \<open>float\<close> is an IEEE 754 double. A finite double is modelled by an integer
  mantissa and a binary exponent, denoting \<open>mantissa * 2 ^ exponent\<close>. An operation
  computes the exact result and rounds it to 53 significant bits, ties to even. The
  exponent is unbounded: overflow and subnormal numbers are not modelled, and the values
  of this program are far away from both.
\<close>

datatype double = Double (mantissa: int) (exponent: int)

definition double_value :: "double \<Rightarrow> rat" where
  "double_value x = of_int (mantissa x) * 2 powi (exponent x)"

fun bit_length :: "nat \<Rightarrow> nat" where
  "bit_length n = (if n = 0 then 0 else Suc (bit_length (n div 2)))"

declare bit_length.simps [simp del]

text \<open>\<open>m / 2 ^ k\<close> rounded to the nearest integer, ties to the even one.\<close>

definition round_shift :: "int \<Rightarrow> nat \<Rightarrow> int" where
  "round_shift m k =
     (if k = 0 then m
      else (let q = m div 2 ^ k; r = m mod 2 ^ k; half = 2 ^ (k - 1) in
            if r < half then q
            else if half < r then q + 1
            else if even q then q else q + 1))"

definition double_round :: "int \<Rightarrow> int \<Rightarrow> double" where
  "double_round m e =
     (let n = bit_length (nat \<bar>m\<bar>) in
      if n \<le> 53 then Double m e
      else Double (round_shift m (n - 53)) (e + int (n - 53)))"

definition double_add :: "double \<Rightarrow> double \<Rightarrow> double" where
  "double_add x y =
     (let e = min (exponent x) (exponent y) in
      double_round
        (mantissa x * 2 ^ nat (exponent x - e) + mantissa y * 2 ^ nat (exponent y - e)) e)"

definition double_mult :: "double \<Rightarrow> double \<Rightarrow> double" where
  "double_mult x y = double_round (mantissa x * mantissa y) (exponent x + exponent y)"

definition double_of_int :: "int \<Rightarrow> double" where
  "double_of_int i = double_round i 0"

text \<open>The doubles nearest to the decimal literals \<open>0.7\<close>, \<open>0.1\<close>, \<open>0.95\<close> and \<open>0.0\<close>.\<close>

definition double_0_7 :: double where
  "double_0_7 = Double 6305039478318694 (- 53)"

definition double_0_1 :: double where
  "double_0_1 = Double 7205759403792794 (- 56)"

definition double_0_95 :: double where
  "double_0_95 = Double 8556839292003942 (- 53)"

definition double_0_0 :: double where
  "double_0_0 = Double 0 0"

section \<open>Variant generation (content\_generator.py, generate\_line\_content)\<close>

datatype chat_response = ChatResponse (choices: "ustr option list")

record ChatRequest =
  chat_model :: ustr
  system_message :: ustr
  user_message :: ustr
  max_tokens :: nat
  temperature :: double
  top_p :: double
  frequency_penalty :: double
  presence_penalty :: double

type_synonym chat_backend = "ChatRequest \<Rightarrow> error + chat_response"

definition lit_variation_pre :: ustr where
  \<comment> \<open>LINE haishin kiji no barieeshon (variation ... of the LINE article)\<close>
  "lit_variation_pre =
    [76, 73, 78, 69, 37197, 20449, 35352, 20107, 12398, 12496, 12522, 12456, 12540, 12471,
     12519, 12531]"

definition lit_variation_post :: ustr where
  \<comment> \<open>wo seisei shite kudasai (please generate)\<close>
  "lit_variation_post =
    [12434, 29983, 25104, 12375, 12390, 12367, 12384, 12373, 12356, 12290]"


text \<open>The expression \<open>0.7 + (i * 0.1)\<close>.\<close>

definition variant_temperature :: "nat \<Rightarrow> double" where
  "variant_temperature i =
     double_add double_0_7 (double_mult (double_of_int (int i)) double_0_1)"

text \<open>The arguments of \<open>client.chat.completions.create\<close> for the variant of index \<open>i\<close>.\<close>

definition variant_request :: "ustr \<Rightarrow> nat \<Rightarrow> ChatRequest" where
  "variant_request prompt i =
     \<lparr>chat_model = lit_gpt_4o,
      system_message = prompt,
      user_message = lit_variation_pre @ str_nat (i + 1) @ lit_variation_post,
      max_tokens = 800,
      temperature = variant_temperature i,
      top_p = double_0_95,
      frequency_penalty = double_0_0,
      presence_penalty = double_0_0\<rparr>"

text \<open>
  One pass of the loop body after the call: \<open>response.choices[0].message.content\<close>,
  the formatting and the construction of the \<open>GeneratedContent\<close>. An empty list of
  choices raises \<open>IndexError\<close>. A content that is \<open>None\<close> raises as well:
  \<open>TypeError\<close> at the first \<open>+=\<close> of the formatting when there is an image or a source
  URL, and the validation error of the \<open>GeneratedContent\<close> model otherwise.
\<close>

definition variant_of_response ::
  "chat_response \<Rightarrow> ustr list \<Rightarrow> ustr option \<Rightarrow> error + GeneratedContent" where
  "variant_of_response response selected_images source_url =
     (case choices response of
        [] \<Rightarrow> Inl IndexError
      | c # _ \<Rightarrow>
          (case c of
             None \<Rightarrow>
               Inl (if selected_images \<noteq> [] \<or> truthy source_url then TypeError
                    else ValidationError)
           | Some txt \<Rightarrow>
               Inr \<lparr>content = txt,
                    markdown = format_as_markdown txt selected_images source_url\<rparr>))"

text \<open>
  The loop \<open>for i in range(3)\<close>, over the indices that remain, with the list
  \<open>variations\<close> built so far. The first exception leaves the loop.
\<close>

fun generate_variations ::
  "chat_backend \<Rightarrow> ustr \<Rightarrow> ustr list \<Rightarrow> ustr option \<Rightarrow> nat list
     \<Rightarrow> GeneratedContent list \<Rightarrow> error + GeneratedContent list" where
  "generate_variations chat prompt selected_images source_url [] variations = Inr variations"
| "generate_variations chat prompt selected_images source_url (i # rest) variations =
     (case chat (variant_request prompt i) of
        Inl e \<Rightarrow> Inl e
      | Inr response \<Rightarrow>
          (case variant_of_response response selected_images source_url of
             Inl e \<Rightarrow> Inl e
           | Inr v \<Rightarrow>
               generate_variations chat prompt selected_images source_url rest
                 (variations @ [v])))"

text \<open>
  The first part of \<open>generate_line_content\<close>: the dictionary \<open>web_search_info\<close>, empty
  unless the search is requested. \<open>search_related_info\<close> catches its own exceptions, so
  the assignment is always reached; an exception of the logging line after it is caught
  by the \<open>except\<close> of this block and leaves the assigned dictionary in place.
\<close>

definition gather_web_search_info ::
  "search_backend \<Rightarrow> 'a LineContentRequest_scheme \<Rightarrow> 'b ScrapedContent_scheme \<Rightarrow> bool
     \<Rightarrow> WebSearchInfo option" where
  "gather_web_search_info search request scraped_content use_web_search =
     (if use_web_search then
        Some (enhance_content_with_web_search search request (title scraped_content))
      else None)"

definition generate_line_content ::
  "search_backend \<Rightarrow> chat_backend \<Rightarrow> 'a LineContentRequest_scheme
     \<Rightarrow> 'b ScrapedContent_scheme \<Rightarrow> ustr list \<Rightarrow> bool \<Rightarrow> error + GeneratedContent list" where
  "generate_line_content search chat request scraped_content selected_images use_web_search =
     (let web_search_info =
            gather_web_search_info search request scraped_content use_web_search;
          prompt = build_prompt request scraped_content selected_images web_search_info
      in case generate_variations chat prompt selected_images (Some (blog_url request))
                [0..<3] [] of
           Inl e \<Rightarrow> Inl (GenerationError e)
         | Inr variations \<Rightarrow> Inr variations)"

section \<open>Scraping (scraper.py)\<close>

subsection \<open>Parsed documents\<close>

text \<open>
  The tree that the parser hands over: a tag has a name, the list of its classes
  (the parser splits the \<open>class\<close> attribute at white space), its other attributes and
  its children; a leaf is a piece of text. The document itself is a tag whose children are
  the top-level nodes.
\<close>

datatype node =
    Tag (tag_name: ustr) (tag_classes: "ustr list") (tag_attrs: "(ustr \<times> ustr) list")
      (tag_children: "node list")
  | NavigableString ustr

fun is_tag :: "node \<Rightarrow> bool" where
  "is_tag (Tag n cl attrs ch) = True"
| "is_tag (NavigableString s) = False"

text \<open>All nodes below a node, in document order.\<close>

fun descendants :: "node \<Rightarrow> node list" where
  "descendants (Tag n cl attrs ch) = concat (map (\<lambda>c. c # descendants c) ch)"
| "descendants (NavigableString s) = []"

text \<open>\<open>find_all\<close> and \<open>find\<close> of the parser library, for a test on tags.\<close>

definition soup_find_all :: "(node \<Rightarrow> bool) \<Rightarrow> node \<Rightarrow> node list" where
  "soup_find_all p tree = filter (\<lambda>n. is_tag n \<and> p n) (descendants tree)"

definition soup_find :: "(node \<Rightarrow> bool) \<Rightarrow> node \<Rightarrow> node option" where
  "soup_find p tree = (case soup_find_all p tree of [] \<Rightarrow> None | n # _ \<Rightarrow> Some n)"

fun by_name :: "ustr list \<Rightarrow> node \<Rightarrow> bool" where
  "by_name names (Tag n cl attrs ch) = (n \<in> set names)"
| "by_name names (NavigableString s) = False"

fun by_class :: "ustr list \<Rightarrow> node \<Rightarrow> bool" where
  "by_class wanted (Tag n cl attrs ch) = (\<exists>c \<in> set cl. c \<in> set wanted)"
| "by_class wanted (NavigableString s) = False"

fun by_id :: "ustr \<Rightarrow> node \<Rightarrow> bool" where
  "by_id wanted (Tag n cl attrs ch) = (map_of attrs [105, 100] = Some wanted)"
| "by_id wanted (NavigableString s) = False"

text \<open>\<open>get_text()\<close>, also the property \<open>text\<close>: all text below the node, concatenated.\<close>

fun get_text :: "node \<Rightarrow> ustr" where
  "get_text (Tag n cl attrs ch) = concat (map get_text ch)"
| "get_text (NavigableString s) = s"

text \<open>\<open>tag.get(key)\<close>.\<close>

fun get_attr :: "node \<Rightarrow> ustr \<Rightarrow> ustr option" where
  "get_attr (Tag n cl attrs ch) key = map_of attrs key"
| "get_attr (NavigableString s) key = None"

subsection \<open>White space\<close>

text \<open>The code points that \<open>str.strip()\<close> removes.\<close>

definition isspace :: "nat \<Rightarrow> bool" where
  "isspace c \<longleftrightarrow>
     (9 \<le> c \<and> c \<le> 13) \<or> (28 \<le> c \<and> c \<le> 32) \<or> c = 133 \<or> c = 160 \<or> c = 5760
     \<or> (8192 \<le> c \<and> c \<le> 8202) \<or> c = 8232 \<or> c = 8233 \<or> c = 8239 \<or> c = 8287
     \<or> c = 12288"

definition strip :: "ustr \<Rightarrow> ustr" where
  "strip s = rev (dropWhile isspace (rev (dropWhile isspace s)))"

subsection \<open>Title\<close>

definition lit_h1 :: ustr where
  \<comment> \<open>ASCII h1\<close>
  "lit_h1 =
    [104, 49]"

definition lit_title :: ustr where
  \<comment> \<open>ASCII title\<close>
  "lit_title =
    [116, 105, 116, 108, 101]"

definition lit_article_title :: ustr where
  \<comment> \<open>ASCII article-title\<close>
  "lit_article_title =
    [97, 114, 116, 105, 99, 108, 101, 45, 116, 105, 116, 108, 101]"

definition lit_entry_title :: ustr where
  \<comment> \<open>ASCII entry-title\<close>
  "lit_entry_title =
    [101, 110, 116, 114, 121, 45, 116, 105, 116, 108, 101]"

definition lit_post_title :: ustr where
  \<comment> \<open>ASCII post-title\<close>
  "lit_post_title =
    [112, 111, 115, 116, 45, 116, 105, 116, 108, 101]"

definition lit_unknown_title :: ustr where
  \<comment> \<open>taitoru fumei (title unknown)\<close>
  "lit_unknown_title =
    [12479, 12452, 12488, 12523, 19981, 26126]"


text \<open>A tag is truthy whatever it contains, so \<open>if h1 and h1.text.strip()\<close> tests that
  a tag was found and that its stripped text is not empty.\<close>

definition extract_title :: "node \<Rightarrow> ustr" where
  "extract_title soup =
     (let h1 = soup_find (by_name [lit_h1]) soup;
          h1_text = (case h1 of None \<Rightarrow> [] | Some t \<Rightarrow> strip (get_text t))
      in if h1 \<noteq> None \<and> h1_text \<noteq> [] then h1_text
         else
           (let article_title =
                  soup_find (by_class [lit_article_title, lit_entry_title, lit_post_title]) soup;
                article_text =
                  (case article_title of None \<Rightarrow> [] | Some t \<Rightarrow> strip (get_text t))
            in if article_title \<noteq> None \<and> article_text \<noteq> [] then article_text
               else
                 (let title_tag = soup_find (by_name [lit_title]) soup;
                      title_text =
                        (case title_tag of None \<Rightarrow> [] | Some t \<Rightarrow> strip (get_text t))
                  in if title_tag \<noteq> None \<and> title_text \<noteq> [] then title_text
                     else lit_unknown_title)))"

subsection \<open>The content container\<close>

definition lit_article :: ustr where
  \<comment> \<open>ASCII article\<close>
  "lit_article =
    [97, 114, 116, 105, 99, 108, 101]"

definition lit_dot_article_content :: ustr where
  \<comment> \<open>ASCII .article-content\<close>
  "lit_dot_article_content =
    [46, 97, 114, 116, 105, 99, 108, 101, 45, 99, 111, 110, 116, 101, 110, 116]"

definition lit_dot_entry_content :: ustr where
  \<comment> \<open>ASCII .entry-content\<close>
  "lit_dot_entry_content =
    [46, 101, 110, 116, 114, 121, 45, 99, 111, 110, 116, 101, 110, 116]"

definition lit_dot_post_content :: ustr where
  \<comment> \<open>ASCII .post-content\<close>
  "lit_dot_post_content =
    [46, 112, 111, 115, 116, 45, 99, 111, 110, 116, 101, 110, 116]"

definition lit_hash_content :: ustr where
  \<comment> \<open>ASCII #content\<close>
  "lit_hash_content =
    [35, 99, 111, 110, 116, 101, 110, 116]"

definition lit_dot_content :: ustr where
  \<comment> \<open>ASCII .content\<close>
  "lit_dot_content =
    [46, 99, 111, 110, 116, 101, 110, 116]"

definition lit_main :: ustr where
  \<comment> \<open>ASCII main\<close>
  "lit_main =
    [109, 97, 105, 110]"

definition lit_dot_main :: ustr where
  \<comment> \<open>ASCII .main\<close>
  "lit_dot_main =
    [46, 109, 97, 105, 110]"

definition lit_script :: ustr where
  \<comment> \<open>ASCII script\<close>
  "lit_script =
    [115, 99, 114, 105, 112, 116]"

definition lit_style :: ustr where
  \<comment> \<open>ASCII style\<close>
  "lit_style =
    [115, 116, 121, 108, 101]"

definition lit_nav :: ustr where
  \<comment> \<open>ASCII nav\<close>
  "lit_nav =
    [110, 97, 118]"

definition lit_header :: ustr where
  \<comment> \<open>ASCII header\<close>
  "lit_header =
    [104, 101, 97, 100, 101, 114]"

definition lit_footer :: ustr where
  \<comment> \<open>ASCII footer\<close>
  "lit_footer =
    [102, 111, 111, 116, 101, 114]"

definition lit_p :: ustr where
  \<comment> \<open>ASCII p\<close>
  "lit_p =
    [112]"

definition lit_h2 :: ustr where
  \<comment> \<open>ASCII h2\<close>
  "lit_h2 =
    [104, 50]"

definition lit_h3 :: ustr where
  \<comment> \<open>ASCII h3\<close>
  "lit_h3 =
    [104, 51]"

definition lit_div :: ustr where
  \<comment> \<open>ASCII div\<close>
  "lit_div =
    [100, 105, 118]"

definition lit_span :: ustr where
  \<comment> \<open>ASCII span\<close>
  "lit_span =
    [115, 112, 97, 110]"

definition lit_section :: ustr where
  \<comment> \<open>ASCII section\<close>
  "lit_section =
    [115, 101, 99, 116, 105, 111, 110]"

definition lit_img :: ustr where
  \<comment> \<open>ASCII img\<close>
  "lit_img =
    [105, 109, 103]"

definition lit_src :: ustr where
  \<comment> \<open>ASCII src\<close>
  "lit_src =
    [115, 114, 99]"

definition lit_data_src :: ustr where
  \<comment> \<open>ASCII data-src\<close>
  "lit_data_src =
    [100, 97, 116, 97, 45, 115, 114, 99]"


definition content_selectors :: "ustr list" where
  "content_selectors =
     [lit_article, lit_dot_article_content, lit_dot_entry_content, lit_dot_post_content,
      lit_hash_content, lit_dot_content, lit_main, lit_dot_main]"

text \<open>The test that a selector stands for: a class after a dot, an id after a hash sign,
  a tag name otherwise.\<close>

definition selector_test :: "ustr \<Rightarrow> node \<Rightarrow> bool" where
  "selector_test selector =
     (case selector of
        [] \<Rightarrow> by_name [selector]
      | c # rest \<Rightarrow>
          if c = 46 then by_class [rest]
          else if c = 35 then by_id rest
          else by_name [selector])"

text \<open>The loop over the selectors: the first selector that finds an element.\<close>

fun first_selector :: "node \<Rightarrow> ustr list \<Rightarrow> ustr option" where
  "first_selector soup [] = None"
| "first_selector soup (selector # rest) =
     (case soup_find (selector_test selector) soup of
        Some element \<Rightarrow> Some selector
      | None \<Rightarrow> first_selector soup rest)"

definition content_element :: "node \<Rightarrow> node" where
  "content_element soup =
     (case first_selector soup content_selectors of
        None \<Rightarrow> soup
      | Some selector \<Rightarrow>
          (case soup_find (selector_test selector) soup of
             None \<Rightarrow> soup
           | Some element \<Rightarrow> element))"

subsection \<open>Body text, and what it does to the document\<close>

text \<open>
  \<open>decompose()\<close> on every tag that \<open>find_all\<close> returned below an element: the element
  without the subtrees rooted at such tags.
\<close>

fun remove_tags :: "(node \<Rightarrow> bool) \<Rightarrow> node \<Rightarrow> node" where
  "remove_tags p (Tag n cl attrs ch) =
     Tag n cl attrs (map (remove_tags p) (filter (\<lambda>c. \<not> (is_tag c \<and> p c)) ch))"
| "remove_tags p (NavigableString s) = NavigableString s"

text \<open>
  The content element is a part of the document, and \<open>decompose()\<close> changes it in place.
  The document after the change is the document in which the first element that passes
  the test, in document order, is replaced.
\<close>

fun update_first_in :: "(node \<Rightarrow> bool) \<Rightarrow> (node \<Rightarrow> node) \<Rightarrow> node list \<Rightarrow> node list option" where
  "update_first_in p f [] = None"
| "update_first_in p f (Tag n cl attrs ch # rest) =
     (if p (Tag n cl attrs ch) then Some (f (Tag n cl attrs ch) # rest)
      else
        (case update_first_in p f ch of
           Some ch' \<Rightarrow> Some (Tag n cl attrs ch' # rest)
         | None \<Rightarrow> map_option ((#) (Tag n cl attrs ch)) (update_first_in p f rest)))"
| "update_first_in p f (NavigableString s # rest) =
     map_option ((#) (NavigableString s)) (update_first_in p f rest)"

fun update_first :: "(node \<Rightarrow> bool) \<Rightarrow> (node \<Rightarrow> node) \<Rightarrow> node \<Rightarrow> node" where
  "update_first p f (Tag n cl attrs ch) =
     (case update_first_in p f ch of None \<Rightarrow> Tag n cl attrs ch | Some ch' \<Rightarrow> Tag n cl attrs ch')"
| "update_first p f (NavigableString s) = NavigableString s"

definition noise_tags :: "ustr list" where
  "noise_tags = [lit_script, lit_style, lit_nav, lit_header, lit_footer]"

definition strip_noise :: "node \<Rightarrow> node" where
  "strip_noise soup =
     (case first_selector soup content_selectors of
        None \<Rightarrow> remove_tags (by_name noise_tags) soup
      | Some selector \<Rightarrow>
          update_first (selector_test selector) (remove_tags (by_name noise_tags)) soup)"

text \<open>\<open>"\n".join(parts)\<close>.\<close>

fun join_lines :: "ustr list \<Rightarrow> ustr" where
  "join_lines [] = []"
| "join_lines [s] = s"
| "join_lines (s # t # rest) = s @ [10] @ join_lines (t # rest)"

text \<open>
  \<open>_extract_content\<close> returns the body text, read from the content element after the
  removal. The second component is the document as the function leaves it.
\<close>

definition extract_content :: "node \<Rightarrow> ustr \<times> node" where
  "extract_content soup =
     (let element = remove_tags (by_name noise_tags) (content_element soup);
          soup' = strip_noise soup;
          paragraphs = soup_find_all (by_name [lit_p, lit_h2, lit_h3]) element;
          paragraphs =
            (if paragraphs = [] then soup_find_all (by_name [lit_div, lit_span, lit_section]) element
             else paragraphs);
          txt = join_lines (filter (\<lambda>s. s \<noteq> []) (map (\<lambda>p. strip (get_text p)) paragraphs));
          txt = (if txt = [] then strip (get_text element) else txt)
      in (txt, soup'))"

subsection \<open>Images\<close>

text \<open>\<open>img.get('src') or img.get('data-src')\<close>.\<close>

definition image_source :: "node \<Rightarrow> ustr option" where
  "image_source img =
     (if truthy (get_attr img lit_src) then get_attr img lit_src
      else get_attr img lit_data_src)"

text \<open>
  The loop over the image tags, appending to \<open>images\<close>. \<open>urljoin\<close> belongs to the
  standard library and is a parameter.
\<close>

fun collect_images :: "(ustr \<Rightarrow> ustr \<Rightarrow> ustr) \<Rightarrow> ustr \<Rightarrow> ustr list \<Rightarrow> node list \<Rightarrow> ustr list" where
  "collect_images urljoin url found [] = found"
| "collect_images urljoin url found (img # rest) =
     (let src = image_source img in
      if truthy src then collect_images urljoin url (found @ [urljoin url (the src)]) rest
      else collect_images urljoin url found rest)"

text \<open>
  \<open>list(dict.fromkeys(images))\<close>: a dictionary keeps its keys in the order of their first
  insertion, and inserting a key again leaves its place unchanged.
\<close>

definition insert_key :: "'a list \<Rightarrow> 'a \<Rightarrow> 'a list" where
  "insert_key keys k = (if k \<in> set keys then keys else keys @ [k])"

definition dict_fromkeys :: "'a list \<Rightarrow> 'a list" where
  "dict_fromkeys xs = foldl insert_key [] xs"

definition extract_images :: "(ustr \<Rightarrow> ustr \<Rightarrow> ustr) \<Rightarrow> ustr \<Rightarrow> node \<Rightarrow> ustr list" where
  "extract_images urljoin url soup =
     (let element = content_element soup;
          found = collect_images urljoin url [] (soup_find_all (by_name [lit_img]) element);
          found =
            (if found = [] then
               collect_images urljoin url [] (soup_find_all (by_name [lit_img]) soup)
             else found)
      in dict_fromkeys found)"

subsection \<open>The scraper\<close>

text \<open>
  \<open>scrape\<close>, given the outcome of the page fetch and of the parser: a request exception
  or the parsed document. The three extractions run in the order of the source, on the
  same document object; the images are looked for in the document as the extraction of
  the body text has left it.
\<close>

definition scrape ::
  "(ustr \<Rightarrow> ustr \<Rightarrow> ustr) \<Rightarrow> ustr \<Rightarrow> error + node \<Rightarrow> error + ScrapedContent" where
  "scrape urljoin url fetched =
     (case fetched of
        Inl e \<Rightarrow> Inl (ScrapeError e)
      | Inr soup \<Rightarrow>
          (let t = extract_title soup;
               (txt, soup') = extract_content soup;
               imgs = extract_images urljoin url soup'
           in Inr \<lparr>title = t, content = txt, images = imgs\<rparr>))"

section \<open>The formatting as the specification words it\<close>

text \<open>
  The specification describes the formatted text as the raw text, then one image reference
  per selected image URL, numbered from 1 in the order of the list, then one link to the
  source URL when there is one.
\<close>

definition numbered_image_references :: "ustr list \<Rightarrow> ustr" where
  "numbered_image_references urls =
     concat (map (\<lambda>(k, u). lit_image_open @ str_nat k @ lit_image_mid @ u @ lit_paren_close)
                 (zip [1..<Suc (length urls)] urls))"

definition trailing_link :: "ustr option \<Rightarrow> ustr" where
  "trailing_link source_url =
     (case source_url of
        None \<Rightarrow> []
      | Some u \<Rightarrow> if u = [] then [] else lit_link_open @ u @ lit_paren_close)"

definition markdown_spec :: "ustr \<Rightarrow> ustr list \<Rightarrow> ustr option \<Rightarrow> ustr" where
  "markdown_spec txt urls source_url =
     txt @ numbered_image_references urls @ trailing_link source_url"


section \<open>The title resolution as the specification words it\<close>

text \<open>
  The specification describes the title as the first non-empty candidate of a fixed list,
  with a sentinel when every candidate is empty. A candidate is the stripped text of the
  first element of its kind, and is empty when there is no such element.
\<close>

fun first_non_empty :: "ustr list \<Rightarrow> ustr \<Rightarrow> ustr" where
  "first_non_empty [] fallback = fallback"
| "first_non_empty (c # cs) fallback = (if c \<noteq> [] then c else first_non_empty cs fallback)"

definition stripped_text_of_first :: "(node \<Rightarrow> bool) \<Rightarrow> node \<Rightarrow> ustr" where
  "stripped_text_of_first p soup =
     (case soup_find p soup of None \<Rightarrow> [] | Some t \<Rightarrow> strip (get_text t))"

definition title_candidates :: "node \<Rightarrow> ustr list" where
  "title_candidates soup =
     [stripped_text_of_first (by_name [lit_h1]) soup,
      stripped_text_of_first (by_class [lit_article_title, lit_entry_title, lit_post_title]) soup,
      stripped_text_of_first (by_name [lit_title]) soup]"

section \<open>Example inputs\<close>

text \<open>A request and an article with short ASCII fields, for the concrete instances.\<close>

definition example_request :: LineContentRequest where
  "example_request =
     \<lparr>company_name = [65, 67, 77, 69],
      company_url = [104, 116, 116, 112, 115, 58, 47, 47, 97, 46, 106, 112],
      blog_url = [104, 116, 116, 112, 115, 58, 47, 47, 97, 46, 106, 112, 47, 49],
      redirect_text = [114],
      bracket_type = [91, 93],
      honorific = [115],
      child_honorific = [99],
      fixed_format = None,
      add_emotional_intro = True,
      writing_style = Casual,
      line_break_style = Readability,
      content_length = [50, 48, 48],
      date_format = [77, 77],
      bullet_point = [45],
      emoji_types = [33],
      emoji_count = [52],
      greeting_text = [72, 105],
      reference_template = None\<rparr>"

definition example_article :: ScrapedContent where
  "example_article = \<lparr>title = [83, 97, 108, 101], content = [72, 101, 108, 108, 111], images = []\<rparr>"

text \<open>
  A parsed page: the document root, \<open>html\<close>, \<open>body\<close>, and an \<open>article\<close> element that
  holds a \<open>header\<close> with one image (source \<open>/a.jpg\<close>) and one paragraph with the text
  \<open>Hi\<close>. The second definition is the same page without the header.
\<close>

definition header_image_page :: node where
  "header_image_page =
     Tag [91, 100, 111, 99, 117, 109, 101, 110, 116, 93] [] []
       [Tag [104, 116, 109, 108] [] []
          [Tag [98, 111, 100, 121] [] []
             [Tag lit_article [] []
                [Tag lit_header [] []
                   [Tag lit_img [] [(lit_src, [47, 97, 46, 106, 112, 103])] []],
                 Tag lit_p [] [] [NavigableString [72, 105]]]]]]"

definition header_image_page_after :: node where
  "header_image_page_after =
     Tag [91, 100, 111, 99, 117, 109, 101, 110, 116, 93] [] []
       [Tag [104, 116, 109, 108] [] []
          [Tag [98, 111, 100, 121] [] []
             [Tag lit_article [] [] [Tag lit_p [] [] [NavigableString [72, 105]]]]]]"

section \<open>Properties of the formatting\<close>

lemma append_images_eq:
  "append_images md i urls =
     md @ concat (map (\<lambda>(k, u). image_reference k u) (zip [i..<i + length urls] urls))"
proof (induction urls arbitrary: md i)
  case Nil
  then show ?case by simp
next
  case (Cons u us)
  have "[i..<i + length (u # us)] = i # [Suc i..<Suc i + length us]"
    by (simp add: upt_rec)
  then show ?case using Cons.IH [of "md @ image_reference i u" "Suc i"] by simp
qed

lemma references_shift:
  "map (\<lambda>(k, u). image_reference k u) (zip [i..<i + length urls] urls) =
   map (\<lambda>(k, u). lit_image_open @ str_nat k @ lit_image_mid @ u @ lit_paren_close)
       (zip [Suc i..<Suc i + length urls] urls)"
proof (induction urls arbitrary: i)
  case Nil
  then show ?case by simp
next
  case (Cons u us)
  have a: "[i..<i + length (u # us)] = i # [Suc i..<Suc i + length us]"
    by (simp add: upt_rec)
  have b: "[Suc i..<Suc i + length (u # us)] = Suc i # [Suc (Suc i)..<Suc (Suc i) + length us]"
    by (simp add: upt_rec)
  show ?case unfolding a b using Cons.IH [of "Suc i"] by (simp add: image_reference_def)
qed

lemma append_images_spec:
  "append_images md 0 urls = md @ numbered_image_references urls"
  using references_shift [of 0 urls]
  by (simp add: append_images_eq numbered_image_references_def)

text \<open>
  C3: for every raw text, list of selected image URLs and optional source URL, the
  \<open>markdown\<close> field is the raw text followed by one image reference per selected image
  URL, numbered from 1 in the order of the list, followed by one link to the source URL
  when the source URL is present (neither \<open>None\<close> nor empty), and by nothing otherwise;
  the \<open>content\<close> field is the raw text, unchanged.
\<close>

theorem format_as_markdown_spec:
  "format_as_markdown txt urls source_url = markdown_spec txt urls source_url
   \<and> variant_of_response (ChatResponse (Some txt # others)) urls source_url =
       Inr \<lparr>content = txt, markdown = markdown_spec txt urls source_url\<rparr>"
proof -
  have "format_as_markdown txt urls source_url = markdown_spec txt urls source_url"
    by (cases source_url)
       (simp_all add: format_as_markdown_def markdown_spec_def append_images_spec
          trailing_link_def source_link_def)
  then show ?thesis by (simp add: variant_of_response_def)
qed

theorem format_as_markdown_spec_witness:
  "format_as_markdown [72, 105] [[97], [98]] (Some [99]) =
     [72, 105] @ lit_image_open @ [49] @ lit_image_mid @ [97] @ lit_paren_close
       @ lit_image_open @ [50] @ lit_image_mid @ [98] @ lit_paren_close
       @ lit_link_open @ [99] @ lit_paren_close"
  using format_as_markdown_spec [of "[72, 105]" "[[97], [98]]" "Some [99]" "[]"]
  by (simp add: markdown_spec_def numbered_image_references_def trailing_link_def upt_rec
        str_nat.simps)

text \<open>
  C9: the raw content is a prefix of the formatted markdown, whatever the images and the
  source URL are; with no image and no source URL the formatting returns the content
  itself.
\<close>

theorem content_prefix_of_markdown:
  "prefix txt (format_as_markdown txt urls source_url)
   \<and> format_as_markdown txt [] None = txt"
  by (cases source_url) (simp_all add: format_as_markdown_def append_images_eq Let_def)

theorem content_prefix_of_markdown_witness:
  "prefix [72, 105] (format_as_markdown [72, 105] [[97]] (Some [99]))
   \<and> format_as_markdown [72, 105] [] None = [72, 105]"
  using content_prefix_of_markdown [of "[72, 105]" "[[97]]" "Some [99]"]
    content_prefix_of_markdown [of "[72, 105]" "[]" "None"]
  by simp

section \<open>Properties of the prompt\<close>

lemma gather_ignores_body:
  "gather_web_search_info search request (sc\<lparr>ScrapedContent.content := body\<rparr>) use =
   gather_web_search_info search request sc use"
  by (simp add: gather_web_search_info_def)

lemma build_prompt_body_split:
  "build_prompt request (sc\<lparr>ScrapedContent.content := body\<rparr>) imgs ws =
     (prompt_intro @ company_name request @ prompt_company_url @ company_url request
        @ prompt_article_title @ title sc @ prompt_article_body)
     @ take 1500 body
     @ (prompt_after_body @ web_search_section ws
        @ prompt_requirements @ content_length request
        @ prompt_writing_style @ str_writing_style (writing_style request)
        @ prompt_line_break @ str_line_break_style (line_break_style request)
        @ prompt_bracket @ bracket_type request
        @ prompt_honorific @ honorific request
        @ prompt_child_honorific @ child_honorific request
        @ prompt_emotional_intro @ emotional_intro_field (add_emotional_intro request)
        @ prompt_emoji_types @ emoji_types request
        @ prompt_emoji_count @ emoji_count request
        @ prompt_bullet_point @ bullet_point request
        @ prompt_date_format @ date_format request
        @ prompt_greeting @ greeting_text request
        @ prompt_redirect @ redirect_text request
        @ prompt_image @ image_field imgs
        @ prompt_gap @ image_instruction imgs
        @ prompt_gap @ template_instruction request
        @ prompt_instructions)"
  by (simp add: build_prompt_def)


lemma build_prompt_body_slot:
  "\<exists>pre post. \<forall>body.
     build_prompt request (sc\<lparr>ScrapedContent.content := body\<rparr>) imgs ws
       = pre @ take 1500 body @ post"
  by (intro exI allI) (rule build_prompt_body_split)

text \<open>
  C4: the prompt holds the body only through its first 1500 characters. For a fixed request,
  title, image list and search outcome there are two strings \<open>pre\<close> and \<open>post\<close> such
  that, for every body, the prompt is \<open>pre\<close>, then the first 1500 characters of the body,
  then \<open>post\<close>; so two bodies with the same first 1500 characters give the same prompt,
  and no character beyond position 1500 reaches it. The bound is the constant 1500 of the
  source, not an argument.
\<close>

theorem body_truncation:
  "(\<exists>pre post. \<forall>body.
       build_prompt request (sc\<lparr>ScrapedContent.content := body\<rparr>) imgs
         (gather_web_search_info search request (sc\<lparr>ScrapedContent.content := body\<rparr>) use)
       = pre @ take 1500 body @ post)
   \<and> (take 1500 b1 = take 1500 b2 \<longrightarrow>
        build_prompt request (sc\<lparr>ScrapedContent.content := b1\<rparr>) imgs ws =
        build_prompt request (sc\<lparr>ScrapedContent.content := b2\<rparr>) imgs ws)"
proof
  show "\<exists>pre post. \<forall>body.
       build_prompt request (sc\<lparr>ScrapedContent.content := body\<rparr>) imgs
         (gather_web_search_info search request (sc\<lparr>ScrapedContent.content := body\<rparr>) use)
       = pre @ take 1500 body @ post"
    unfolding gather_ignores_body by (rule build_prompt_body_slot)
next
  show "take 1500 b1 = take 1500 b2 \<longrightarrow>
        build_prompt request (sc\<lparr>ScrapedContent.content := b1\<rparr>) imgs ws =
        build_prompt request (sc\<lparr>ScrapedContent.content := b2\<rparr>) imgs ws"
    by (simp only: build_prompt_body_split) simp
qed

theorem body_truncation_witness:
  "build_prompt example_request
     (example_article\<lparr>ScrapedContent.content := replicate 1500 97 @ [98]\<rparr>) [] None =
   build_prompt example_request
     (example_article\<lparr>ScrapedContent.content := replicate 1500 97 @ [99, 100]\<rparr>) [] None"
proof -
  have "take 1500 (replicate 1500 97 @ [98]) = take 1500 (replicate 1500 (97::nat) @ [99, 100])"
    by simp
  then show ?thesis
    using body_truncation [of example_request example_article "[]" "\<lambda>r. Inl AttributeError"
      False "replicate 1500 97 @ [98]" "replicate 1500 97 @ [99, 100]" None]
    by blast
qed

lemma build_prompt_image_split:
  "build_prompt request sc imgs ws =
     (prompt_intro @ company_name request
     @ prompt_company_url @ company_url request
     @ prompt_article_title @ title sc
     @ prompt_article_body @ take 1500 (ScrapedContent.content sc)
     @ prompt_after_body @ web_search_section ws
     @ prompt_requirements @ content_length request
     @ prompt_writing_style @ str_writing_style (writing_style request)
     @ prompt_line_break @ str_line_break_style (line_break_style request)
     @ prompt_bracket @ bracket_type request
     @ prompt_honorific @ honorific request
     @ prompt_child_honorific @ child_honorific request
     @ prompt_emotional_intro @ emotional_intro_field (add_emotional_intro request)
     @ prompt_emoji_types @ emoji_types request
     @ prompt_emoji_count @ emoji_count request
     @ prompt_bullet_point @ bullet_point request
     @ prompt_date_format @ date_format request
     @ prompt_greeting @ greeting_text request
     @ prompt_redirect @ redirect_text request)
     @ prompt_image @ image_field imgs @ prompt_gap @ image_instruction imgs
     @ prompt_gap @ template_instruction request @ prompt_instructions"
  by (simp add: build_prompt_def)

lemma build_prompt_image_slots:
  "\<exists>front. \<forall>imgs.
      build_prompt request sc imgs ws =
        front @ prompt_image @ image_field imgs @ prompt_gap @ image_instruction imgs
          @ prompt_gap @ template_instruction request @ prompt_instructions"
  by (intro exI allI) (rule build_prompt_image_split)

text \<open>
  C10: with an empty list of selected images the image instruction is the empty string and
  the image field of the requirements is the word for "none". The prompt depends on the
  images through these two places only: after the image field come the gap, the image
  instruction, the gap, the template instruction and the fixed instructions.
\<close>

theorem no_images_prompt:
  "image_instruction [] = [] \<and> image_field [] = lit_nashi
   \<and> (\<exists>front. \<forall>imgs.
         build_prompt request sc imgs ws =
           front @ prompt_image @ image_field imgs @ prompt_gap @ image_instruction imgs
             @ prompt_gap @ template_instruction request @ prompt_instructions)"
proof (intro conjI)
  show "image_instruction [] = []" by (simp add: image_instruction_def)
  show "image_field [] = lit_nashi" by (simp add: image_field_def)
  show "\<exists>front. \<forall>imgs.
         build_prompt request sc imgs ws =
           front @ prompt_image @ image_field imgs @ prompt_gap @ image_instruction imgs
             @ prompt_gap @ template_instruction request @ prompt_instructions"
    by (rule build_prompt_image_slots)
qed

theorem no_images_prompt_witness:
  "image_instruction [] = [] \<and> image_field [] = lit_nashi
   \<and> (\<exists>front. \<forall>imgs.
         build_prompt example_request example_article imgs None =
           front @ prompt_image @ image_field imgs @ prompt_gap @ image_instruction imgs
             @ prompt_gap @ template_instruction example_request @ prompt_instructions)"
  using no_images_prompt [of example_request example_article None] by simp

lemma build_prompt_section_split:
  "build_prompt request sc imgs ws =
     (prompt_intro @ company_name request
     @ prompt_company_url @ company_url request
     @ prompt_article_title @ title sc
     @ prompt_article_body @ take 1500 (ScrapedContent.content sc)
     @ prompt_after_body) @ web_search_section ws
     @ (prompt_requirements @ content_length request
     @ prompt_writing_style @ str_writing_style (writing_style request)
     @ prompt_line_break @ str_line_break_style (line_break_style request)
     @ prompt_bracket @ bracket_type request
     @ prompt_honorific @ honorific request
     @ prompt_child_honorific @ child_honorific request
     @ prompt_emotional_intro @ emotional_intro_field (add_emotional_intro request)
     @ prompt_emoji_types @ emoji_types request
     @ prompt_emoji_count @ emoji_count request
     @ prompt_bullet_point @ bullet_point request
     @ prompt_date_format @ date_format request
     @ prompt_greeting @ greeting_text request
     @ prompt_redirect @ redirect_text request
     @ prompt_image @ image_field imgs @ prompt_gap @ image_instruction imgs
     @ prompt_gap @ template_instruction request @ prompt_instructions)"
  by (simp add: build_prompt_def)

lemma sublist_middle: "sublist h (a @ (b @ h @ c) @ d)"
proof -
  have "a @ (b @ h @ c) @ d = (a @ b) @ h @ (c @ d)" by simp
  then show ?thesis unfolding sublist_def by blast
qed

text \<open>
  C1: the claim is that a prompt built from an empty enrichment summary has no enrichment
  section. The code tests the presence of the key \<open>summary\<close>, and the dictionary of a
  failed search has that key with the empty string: after a failed search the section is
  built around the empty summary, and the prompt contains the section header.
\<close>

theorem empty_summary_keeps_header:
  "gather_web_search_info (\<lambda>r. Inl e) request sc True =
     Some \<lparr>topic = title sc, search_results = failed_search e\<rparr>
   \<and> summary (failed_search e) = Some []
   \<and> web_search_section (gather_web_search_info (\<lambda>r. Inl e) request sc True) =
       section_indent @ enrichment_header @ enrichment_after_header @ enrichment_close
   \<and> sublist enrichment_header
        (build_prompt request sc imgs (gather_web_search_info (\<lambda>r. Inl e) request sc True))"
proof -
  have g: "gather_web_search_info (\<lambda>r. Inl e) request sc True =
     Some \<lparr>topic = title sc, search_results = failed_search e\<rparr>"
    by (simp add: gather_web_search_info_def enhance_content_with_web_search_def
          search_related_info_def search_related_info_try_def)
  have s: "summary (failed_search e) = Some []"
    by (simp add: failed_search_def)
  have w: "web_search_section (Some \<lparr>topic = title sc, search_results = failed_search e\<rparr>) =
       section_indent @ enrichment_header @ enrichment_after_header @ enrichment_close"
    by (simp add: web_search_section_def s)
  have "sublist enrichment_header (build_prompt request sc imgs
          (Some \<lparr>topic = title sc, search_results = failed_search e\<rparr>))"
    unfolding build_prompt_section_split w by (rule sublist_middle)
  with g s w show ?thesis by simp
qed

section \<open>Properties of the variant generation\<close>

lemma bit_length_numeral:
  "bit_length (numeral (Num.Bit0 n)) = 1 + bit_length (numeral n)"
  "bit_length (numeral (Num.Bit1 n)) = 1 + bit_length (numeral n)"
  "bit_length (numeral Num.One) = 1" "bit_length 1 = 1" "bit_length (Suc 0) = 1" "bit_length 0 = 0"
  by (subst bit_length.simps, simp add: numeral_Bit0_div_2 numeral_Bit1_div_2)+

lemma round_0: "double_round 50440315826549552 (- 56) = Double 6305039478318694 (- 53)"
  by (simp add: double_round_def bit_length_numeral round_shift_def)

lemma round_1: "double_round 57646075230342346 (- 56) = Double 7205759403792793 (- 53)"
  by (simp add: double_round_def bit_length_numeral round_shift_def)

lemma round_2_product: "double_round 14411518807585588 (- 56) = Double 7205759403792794 (- 55)"
  by (simp add: double_round_def bit_length_numeral round_shift_def)

lemma round_2: "double_round 32425917317067570 (- 55) = Double 8106479329266892 (- 53)"
  by (simp add: double_round_def bit_length_numeral round_shift_def)

lemma variant_temperature_0: "variant_temperature 0 = Double 6305039478318694 (- 53)"
  by (simp add: variant_temperature_def double_add_def double_mult_def double_of_int_def
     double_0_7_def double_0_1_def round_0 double_round_def [of 0] bit_length_numeral)

lemma variant_temperature_1: "variant_temperature 1 = Double 7205759403792793 (- 53)"
  by (simp add: variant_temperature_def double_add_def double_mult_def double_of_int_def
     double_0_7_def double_0_1_def round_1 double_round_def [of 1]
     double_round_def [of 7205759403792794] bit_length_numeral)

lemma variant_temperature_2: "variant_temperature 2 = Double 8106479329266892 (- 53)"
  by (simp add: variant_temperature_def double_add_def double_mult_def double_of_int_def
     double_0_7_def double_0_1_def round_2 round_2_product double_round_def [of 2]
     bit_length_numeral)

lemma range_3: "[0..<3] = [0, 1, 2]"
  by (simp add: upt_rec)

lemma generate_variations_length:
  "generate_variations chat p imgs url ixs acc = Inr vs \<Longrightarrow>
   length vs = length acc + length ixs"
proof (induction ixs arbitrary: acc)
  case Nil
  then show ?case by simp
next
  case (Cons i ixs)
  then show ?case by (fastforce split: sum.splits)
qed

lemma generate_variations_failure:
  "i \<in> set ixs \<Longrightarrow> chat (variant_request p i) = Inl e \<Longrightarrow>
   \<exists>e'. generate_variations chat p imgs url ixs acc = Inl e'"
proof (induction ixs arbitrary: acc)
  case Nil
  then show ?case by simp
next
  case (Cons j ixs)
  show ?case
  proof (cases "chat (variant_request p j)")
    case (Inl a)
    then show ?thesis by simp
  next
    case (Inr response)
    with Cons.prems have "i \<in> set ixs" by auto
    then have "\<exists>e'. generate_variations chat p imgs url ixs (acc @ [v]) = Inl e'" for v
      using Cons.prems(2) by (rule Cons.IH)
    with Inr show ?thesis
      by (simp split: sum.splits)
  qed
qed

lemma generate_variations_success:
  "(\<forall>i \<in> set ixs. chat (variant_request p i) = Inr (ChatResponse (Some (c i) # others i))) \<Longrightarrow>
   generate_variations chat p imgs url ixs acc =
     Inr (acc @ map (\<lambda>i. \<lparr>content = c i, markdown = format_as_markdown (c i) imgs url\<rparr>) ixs)"
  by (induction ixs arbitrary: acc) (simp_all add: variant_of_response_def)

lemma request_temperature: "temperature (variant_request p i) = variant_temperature i"
  by (simp add: variant_request_def)

lemma generate_variations_cong:
  "(\<forall>i \<in> set ixs. chat (variant_request p i) = chat' (variant_request p i)) \<Longrightarrow>
   generate_variations chat p imgs url ixs acc = generate_variations chat' p imgs url ixs acc"
  by (induction ixs arbitrary: acc) (simp_all split: sum.splits)

text \<open>
  C8: the loop of \<open>generate_line_content\<close> sends, for the indices 0, 1, 2 in this order,
  the request built for the index, and consults the backend at no other request: with a
  backend that answers each request \<open>r\<close> by the text \<open>answer r\<close>, the three variants hold
  the answers to the three requests in the order of the indices, and two backends that
  agree on the three requests give the same result. The request for the index \<open>i\<close>
  carries the temperature computed by \<open>0.7 + (i * 0.1)\<close> in double arithmetic. Over the
  three indices the temperature strictly increases; it is the double \<open>0.7\<close> for the first
  variant, and each of the three values lies within \<open>2 ^ -52\<close> of \<open>0.7 + 0.1 * i\<close>.
\<close>

theorem temperature_increases:
  "generate_line_content search (\<lambda>r. Inr (ChatResponse [Some (answer r)])) request sc imgs use =
     Inr (map (\<lambda>i. \<lparr>content =
                      answer (variant_request
                        (build_prompt request sc imgs
                           (gather_web_search_info search request sc use)) i),
                    markdown =
                      format_as_markdown
                        (answer (variant_request
                           (build_prompt request sc imgs
                              (gather_web_search_info search request sc use)) i))
                        imgs (Some (blog_url request))\<rparr>)
              [0, 1, 2])
   \<and> ((\<forall>i<3. chat (variant_request
                      (build_prompt request sc imgs
                         (gather_web_search_info search request sc use)) i) =
                 chat' (variant_request
                      (build_prompt request sc imgs
                         (gather_web_search_info search request sc use)) i)) \<longrightarrow>
        generate_line_content search chat request sc imgs use =
        generate_line_content search chat' request sc imgs use)
   \<and> temperature (variant_request prompt i) = variant_temperature i
   \<and> double_value (variant_temperature 0) < double_value (variant_temperature 1)
   \<and> double_value (variant_temperature 1) < double_value (variant_temperature 2)
   \<and> double_value (variant_temperature 0) = double_value double_0_7
   \<and> \<bar>double_value (variant_temperature 0) - 7 / 10\<bar> < 1 / 2 ^ 52
   \<and> \<bar>double_value (variant_temperature 1) - 8 / 10\<bar> < 1 / 2 ^ 52
   \<and> \<bar>double_value (variant_temperature 2) - 9 / 10\<bar> < 1 / 2 ^ 52"
proof -
  let ?p = "build_prompt request sc imgs (gather_web_search_info search request sc use)"
  let ?echo = "\<lambda>r. Inr (ChatResponse [Some (answer r)]) :: error + chat_response"
  have "\<forall>i \<in> set [0..<3]. ?echo (variant_request ?p i) =
      Inr (ChatResponse (Some (answer (variant_request ?p i)) # []))"
    by simp
  then have "generate_variations ?echo ?p imgs (Some (blog_url request)) [0..<3] [] =
      Inr ([] @ map (\<lambda>i. \<lparr>content = answer (variant_request ?p i),
                 markdown = format_as_markdown (answer (variant_request ?p i)) imgs
                   (Some (blog_url request))\<rparr>) [0..<3])"
    by (rule generate_variations_success
          [where c = "\<lambda>i. answer (variant_request ?p i)" and others = "\<lambda>i. []"])
  then have loop: "generate_variations ?echo ?p imgs (Some (blog_url request)) [0..<3] [] =
      Inr (map (\<lambda>i. \<lparr>content = answer (variant_request ?p i),
                 markdown = format_as_markdown (answer (variant_request ?p i)) imgs
                   (Some (blog_url request))\<rparr>) [0..<3])"
    by simp
  have echo: "generate_line_content search ?echo request sc imgs use =
     Inr (map (\<lambda>i. \<lparr>content = answer (variant_request ?p i),
                    markdown = format_as_markdown (answer (variant_request ?p i)) imgs
                      (Some (blog_url request))\<rparr>) [0, 1, 2])"
    unfolding generate_line_content_def Let_def loop by (simp add: range_3)
  have only: "generate_line_content search chat request sc imgs use =
        generate_line_content search chat' request sc imgs use"
    if "\<forall>i<3. chat (variant_request ?p i) = chat' (variant_request ?p i)"
  proof -
    from that have "\<forall>i \<in> set [0..<3]. chat (variant_request ?p i) = chat' (variant_request ?p i)"
      by simp
    then have "generate_variations chat ?p imgs (Some (blog_url request)) [0..<3] [] =
        generate_variations chat' ?p imgs (Some (blog_url request)) [0..<3] []"
      by (rule generate_variations_cong)
    then show ?thesis by (simp add: generate_line_content_def)
  qed
  have numbers: "temperature (variant_request prompt i) = variant_temperature i
   \<and> double_value (variant_temperature 0) < double_value (variant_temperature 1)
   \<and> double_value (variant_temperature 1) < double_value (variant_temperature 2)
   \<and> double_value (variant_temperature 0) = double_value double_0_7
   \<and> \<bar>double_value (variant_temperature 0) - 7 / 10\<bar> < 1 / 2 ^ 52
   \<and> \<bar>double_value (variant_temperature 1) - 8 / 10\<bar> < 1 / 2 ^ 52
   \<and> \<bar>double_value (variant_temperature 2) - 9 / 10\<bar> < 1 / 2 ^ 52"
    unfolding variant_temperature_0 variant_temperature_1 variant_temperature_2
    by (simp add: variant_request_def double_value_def double_0_7_def variant_temperature_0)
  from echo only numbers show ?thesis by blast
qed

theorem temperature_increases_witness:
  "generate_line_content (\<lambda>r. Inl AttributeError)
     (\<lambda>r. Inr (ChatResponse [Some [nat (mantissa (temperature r))]]))
     example_request example_article [] False =
     Inr [\<lparr>content = [6305039478318694],
           markdown = format_as_markdown [6305039478318694] [] (Some (blog_url example_request))\<rparr>,
          \<lparr>content = [7205759403792793],
           markdown = format_as_markdown [7205759403792793] [] (Some (blog_url example_request))\<rparr>,
          \<lparr>content = [8106479329266892],
           markdown = format_as_markdown [8106479329266892] [] (Some (blog_url example_request))\<rparr>]
   \<and> double_value (variant_temperature 0) < double_value (variant_temperature 1)
   \<and> double_value (variant_temperature 1) < double_value (variant_temperature 2)"
  using temperature_increases [of "\<lambda>r. Inl AttributeError" "\<lambda>r. [nat (mantissa (temperature r))]"
      example_request example_article "[]" False "\<lambda>r. Inl AttributeError" "\<lambda>r. Inl AttributeError" "[]" 1]
    variant_temperature_0 variant_temperature_1 variant_temperature_2
  by (simp add: request_temperature)

text \<open>
  C2: \<open>generate_line_content\<close> returns either a \<open>GenerationError\<close> or a list of exactly
  three variants, never a shorter list. When the three calls of the chat backend succeed
  with a text, the result is the list of the three variants in the order of the calls; when
  the call for some index below 3 fails, the result is a \<open>GenerationError\<close>.
\<close>

theorem all_or_nothing:
  "(case generate_line_content search chat request sc imgs use of
      Inl e \<Rightarrow> \<exists>cause. e = GenerationError cause
    | Inr vs \<Rightarrow> length vs = 3)
   \<and> ((\<forall>i<3. chat (variant_request
                     (build_prompt request sc imgs
                        (gather_web_search_info search request sc use)) i) =
                 Inr (ChatResponse (Some (c i) # others i))) \<longrightarrow>
        generate_line_content search chat request sc imgs use =
          Inr (map (\<lambda>i. \<lparr>content = c i,
                           markdown = format_as_markdown (c i) imgs (Some (blog_url request))\<rparr>)
                   [0, 1, 2]))
   \<and> ((\<exists>i<3. \<exists>e. chat (variant_request
                     (build_prompt request sc imgs
                        (gather_web_search_info search request sc use)) i) = Inl e) \<longrightarrow>
        (\<exists>cause. generate_line_content search chat request sc imgs use =
                   Inl (GenerationError cause)))"
proof (intro conjI impI)
  let ?p = "build_prompt request sc imgs (gather_web_search_info search request sc use)"
  let ?loop = "generate_variations chat ?p imgs (Some (blog_url request)) [0..<3] []"
  show "case generate_line_content search chat request sc imgs use of
      Inl e \<Rightarrow> \<exists>cause. e = GenerationError cause
    | Inr vs \<Rightarrow> length vs = 3"
  proof (cases ?loop)
    case (Inl e)
    then show ?thesis by (simp add: generate_line_content_def)
  next
    case (Inr vs)
    from generate_variations_length [OF this] Inr show ?thesis
      by (simp add: generate_line_content_def)
  qed
  {
    assume "\<forall>i<3. chat (variant_request ?p i) = Inr (ChatResponse (Some (c i) # others i))"
    then have "\<forall>i \<in> set [0..<3]. chat (variant_request ?p i) =
        Inr (ChatResponse (Some (c i) # others i))"
      by simp
    from generate_variations_success [OF this]
    show "generate_line_content search chat request sc imgs use =
          Inr (map (\<lambda>i. \<lparr>content = c i,
                           markdown = format_as_markdown (c i) imgs (Some (blog_url request))\<rparr>)
                   [0, 1, 2])"
      by (simp add: generate_line_content_def range_3)
  }
  {
    assume "\<exists>i<3. \<exists>e. chat (variant_request ?p i) = Inl e"
    then obtain i e where "i < 3" and "chat (variant_request ?p i) = Inl e" by blast
    then have mem: "i \<in> set [0..<3]" and call: "chat (variant_request ?p i) = Inl e"
      by simp_all
    have "\<exists>e'. ?loop = Inl e'"
      using mem call
      by (rule generate_variations_failure [where chat = chat and p = "?p" and i = i and e = e])
    then obtain e' where "?loop = Inl e'" by blast
    then show "\<exists>cause. generate_line_content search chat request sc imgs use =
                   Inl (GenerationError cause)"
      by (simp add: generate_line_content_def)
  }
qed

theorem all_or_nothing_witness:
  "generate_line_content (\<lambda>r. Inl AttributeError) (\<lambda>r. Inr (ChatResponse [Some [72, 105]]))
     example_request example_article [] False =
     Inr (map (\<lambda>i. \<lparr>content = [72, 105],
                      markdown = format_as_markdown [72, 105] [] (Some (blog_url example_request))\<rparr>)
              [0, 1, 2])
   \<and> (\<exists>cause. generate_line_content (\<lambda>r. Inl AttributeError) (\<lambda>r. Inl (ApiError []))
                  example_request example_article [] False = Inl (GenerationError cause))"
proof
  show "generate_line_content (\<lambda>r. Inl AttributeError) (\<lambda>r. Inr (ChatResponse [Some [72, 105]]))
     example_request example_article [] False =
     Inr (map (\<lambda>i. \<lparr>content = [72, 105],
                      markdown = format_as_markdown [72, 105] [] (Some (blog_url example_request))\<rparr>)
              [0, 1, 2])"
    using all_or_nothing [of "\<lambda>r. Inl AttributeError" "\<lambda>r. Inr (ChatResponse [Some [72, 105]])"
        example_request example_article "[]" False "\<lambda>i. [72, 105]" "\<lambda>i. []"]
    by simp
  have "\<exists>i<3::nat. \<exists>e. (\<lambda>r. Inl (ApiError [])) (variant_request
                     (build_prompt example_request example_article []
                        (gather_web_search_info (\<lambda>r. Inl AttributeError) example_request
                           example_article False)) i) = (Inl e :: error + chat_response)"
    by (intro exI [of _ 0]) simp
  then show "\<exists>cause. generate_line_content (\<lambda>r. Inl AttributeError) (\<lambda>r. Inl (ApiError []))
                  example_request example_article [] False = Inl (GenerationError cause)"
    using all_or_nothing [of "\<lambda>r. Inl AttributeError" "\<lambda>r. Inl (ApiError [])"
        example_request example_article "[]" False]
    by blast
qed






section \<open>Properties of the scraper\<close>

lemmas tag_literals =
  lit_article_def lit_header_def lit_img_def lit_src_def lit_data_src_def lit_p_def lit_h2_def lit_h3_def
  lit_script_def lit_style_def lit_nav_def lit_footer_def lit_div_def lit_span_def lit_section_def
  lit_dot_article_content_def lit_dot_entry_content_def lit_dot_post_content_def
  lit_hash_content_def lit_dot_content_def lit_main_def lit_dot_main_def
  lit_h1_def lit_title_def lit_article_title_def lit_entry_title_def lit_post_title_def

lemmas soup_defs =
  content_element_def content_selectors_def selector_test_def soup_find_def soup_find_all_def

lemma first_selector_example:
  "first_selector header_image_page content_selectors = Some lit_article"
  by (simp add: header_image_page_def soup_defs tag_literals)

lemma content_element_example:
  "content_element header_image_page =
     Tag lit_article [] []
       [Tag lit_header [] [] [Tag lit_img [] [(lit_src, [47, 97, 46, 106, 112, 103])] []],
        Tag lit_p [] [] [NavigableString [72, 105]]]"
  by (simp add: header_image_page_def soup_defs tag_literals)

lemma extract_images_example:
  "extract_images urljoin url header_image_page = [urljoin url [47, 97, 46, 106, 112, 103]]"
  unfolding extract_images_def content_element_example
  by (simp add: soup_find_all_def image_source_def dict_fromkeys_def insert_key_def tag_literals)

lemma strip_noise_example: "strip_noise header_image_page = header_image_page_after"
  unfolding strip_noise_def first_selector_example
  by (simp add: header_image_page_def header_image_page_after_def noise_tags_def
        selector_test_def tag_literals)

lemma content_element_after:
  "content_element header_image_page_after =
     Tag lit_article [] [] [Tag lit_p [] [] [NavigableString [72, 105]]]"
  by (simp add: header_image_page_after_def soup_defs tag_literals)

lemma extract_images_after: "extract_images urljoin url header_image_page_after = []"
  unfolding extract_images_def content_element_after
  by (simp add: header_image_page_after_def soup_find_all_def image_source_def
        dict_fromkeys_def insert_key_def tag_literals)

lemma extract_title_example: "extract_title header_image_page = lit_unknown_title"
  by (simp add: extract_title_def header_image_page_def soup_find_def soup_find_all_def
        tag_literals)

lemma strip_Hi: "strip [72, 105] = [72, 105]"
  by (simp add: strip_def isspace_def)

lemma extract_content_example:
  "extract_content header_image_page = ([72, 105], header_image_page_after)"
  unfolding extract_content_def content_element_example strip_noise_example
  by (simp add: noise_tags_def soup_find_all_def strip_Hi tag_literals Let_def)

text \<open>
  C6: the claim is that the extractor collects every image of the content container of the
  fetched page and looks through the entire page when the container has none. On the
  example page \<open>_extract_images\<close>, run on the page as fetched, finds the image of the
  header; \<open>scrape\<close> runs it after \<open>_extract_content\<close>, which has removed the header from
  the shared document, and returns no image at all.
\<close>

theorem header_image_lost:
  "scrape urljoin url (Inr header_image_page) =
     Inr \<lparr>title = lit_unknown_title, content = [72, 105], images = []\<rparr>
   \<and> extract_images urljoin url header_image_page = [urljoin url [47, 97, 46, 106, 112, 103]]"
  by (simp add: scrape_def extract_title_example extract_content_example
        extract_images_after extract_images_example)


lemma unknown_title_not_empty: "lit_unknown_title \<noteq> []"
  by (simp add: lit_unknown_title_def)

lemma first_non_empty_not_empty:
  "fallback \<noteq> [] \<Longrightarrow> first_non_empty cs fallback \<noteq> []"
  by (induction cs) simp_all

text \<open>
  C5: the extracted title is the first non-empty candidate among the stripped text of the
  first \<open>h1\<close> element, the stripped text of the first element with one of the classes
  \<open>article-title\<close>, \<open>entry-title\<close>, \<open>post-title\<close>, and the stripped text of the first
  \<open>title\<close> element, and the sentinel when all three are empty; it is never empty.
\<close>

theorem title_resolution:
  "extract_title soup = first_non_empty (title_candidates soup) lit_unknown_title
   \<and> extract_title soup \<noteq> []"
proof -
  have eq: "extract_title soup = first_non_empty (title_candidates soup) lit_unknown_title"
    by (simp add: extract_title_def title_candidates_def stripped_text_of_first_def Let_def
          split: option.splits)
  show ?thesis
    unfolding eq using first_non_empty_not_empty [OF unknown_title_not_empty] by simp
qed

theorem title_resolution_witness:
  "extract_title (Tag [91, 100, 111, 99, 117, 109, 101, 110, 116, 93] [] []
      [Tag lit_title [] [] [NavigableString [66, 108, 111, 103]],
       Tag lit_h1 [] [] [NavigableString [32, 10]],
       Tag lit_div [lit_entry_title] [] [NavigableString [32, 83, 97, 108, 101, 10]]])
     = [83, 97, 108, 101]"
  using title_resolution [of "Tag [91, 100, 111, 99, 117, 109, 101, 110, 116, 93] [] []
      [Tag lit_title [] [] [NavigableString [66, 108, 111, 103]],
       Tag lit_h1 [] [] [NavigableString [32, 10]],
       Tag lit_div [lit_entry_title] [] [NavigableString [32, 83, 97, 108, 101, 10]]]"]
  by (simp add: title_candidates_def stripped_text_of_first_def soup_find_def soup_find_all_def
        strip_def isspace_def tag_literals)

lemma dict_fromkeys_Nil: "dict_fromkeys [] = []"
  by (simp add: dict_fromkeys_def)

lemma dict_fromkeys_snoc:
  "dict_fromkeys (xs @ [x]) =
     (if x \<in> set (dict_fromkeys xs) then dict_fromkeys xs else dict_fromkeys xs @ [x])"
  by (simp add: dict_fromkeys_def insert_key_def)

lemma set_dict_fromkeys: "set (dict_fromkeys xs) = set xs"
  by (induction xs rule: rev_induct) (auto simp: dict_fromkeys_Nil dict_fromkeys_snoc)

lemma distinct_dict_fromkeys: "distinct (dict_fromkeys xs)"
  by (induction xs rule: rev_induct) (auto simp: dict_fromkeys_Nil dict_fromkeys_snoc)

lemma dict_fromkeys_first_seen:
  "dict_fromkeys xs = rev (remdups (rev xs))"
  by (induction xs rule: rev_induct)
     (auto simp: dict_fromkeys_Nil dict_fromkeys_snoc set_dict_fromkeys)

lemma collect_images_map_filter:
  "collect_images urljoin url found imgs =
     found @ map (\<lambda>img. urljoin url (the (image_source img)))
                 (filter (\<lambda>img. truthy (image_source img)) imgs)"
  by (induction imgs arbitrary: found) (simp_all add: Let_def)

text \<open>
  What \<open>_extract_images\<close> returns for the document it is handed: the resolved sources of
  the images of the content element, or of the whole document when the content element
  has none, each kept at its first occurrence.
\<close>

lemma extract_images_of_document:
  "extract_images urljoin url soup =
     (let sources = (\<lambda>element.
            map (\<lambda>img. urljoin url (the (image_source img)))
                (filter (\<lambda>img. truthy (image_source img))
                   (soup_find_all (by_name [lit_img]) element)))
      in rev (remdups (rev
           (if sources (content_element soup) = [] then sources soup
            else sources (content_element soup)))))"
  by (simp add: extract_images_def collect_images_map_filter dict_fromkeys_first_seen Let_def)

lemma extract_images_distinct: "distinct (extract_images urljoin url soup)"
  by (simp add: extract_images_def Let_def distinct_dict_fromkeys)

end
